theory Spec2Isabelle
  imports Complex_Main
begin

section \<open>Users, departments and the permission table (app/auth/models.py)\<close>

text \<open>
  \<^verbatim>\<open>class Department(str, Enum)\<close>: the three members are strings (the enum mixes in
  \<^verbatim>\<open>str\<close>), they compare and hash as their values, and each value equals its name.
  A department is therefore held as that string, which also leaves a value outside the
  enumeration representable, as \<^verbatim>\<open>permissions.get(self.department, {})\<close> allows for.
\<close>

type_synonym Department = string

definition COMMERCIAL :: Department where
  "COMMERCIAL = ''COMMERCIAL''"

definition SUPPORT :: Department where
  "SUPPORT = ''SUPPORT''"

definition MANAGEMENT :: Department where
  "MANAGEMENT = ''MANAGEMENT''"

text \<open>
  A persisted \<^verbatim>\<open>User\<close> row. Only the columns read by the services are kept; the
  primary key of a persisted row is an integer.
\<close>

record User =
  id_u :: int
  email_u :: string
  department :: Department
  is_active :: bool

definition is_management :: "User \<Rightarrow> bool" where
  "is_management u = (department u = MANAGEMENT)"

definition is_commercial :: "User \<Rightarrow> bool" where
  "is_commercial u = (department u = COMMERCIAL)"

definition is_support :: "User \<Rightarrow> bool" where
  "is_support u = (department u = SUPPORT)"

text \<open>Python's \<^verbatim>\<open>d.get(k, default)\<close> on a dict literal, the dict as its list of items.\<close>

definition dict_get :: "('k \<times> 'v) list \<Rightarrow> 'k \<Rightarrow> 'v \<Rightarrow> 'v" where
  "dict_get d k dflt = (case map_of d k of None \<Rightarrow> dflt | Some v \<Rightarrow> v)"

text \<open>The \<^verbatim>\<open>permissions\<close> literal of \<^verbatim>\<open>User.has_permission\<close>.\<close>

definition permissions :: "(Department \<times> (string \<times> string list) list) list" where
  "permissions =
    [(MANAGEMENT,
        [(''create'', [''user'', ''contract'', ''event'']),
         (''update'', [''user'', ''contract'', ''event'']),
         (''delete'', [''user'']),
         (''read'', [''user'', ''client'', ''contract'', ''event''])]),
     (COMMERCIAL,
        [(''create'', [''client'', ''event'']),
         (''update'', [''client'', ''contract'']),
         (''delete'', []),
         (''read'', [''client'', ''contract'', ''event''])]),
     (SUPPORT,
        [(''create'', []),
         (''update'', [''event'']),
         (''delete'', []),
         (''read'', [''client'', ''contract'', ''event''])])]"

definition has_permission :: "User \<Rightarrow> string \<Rightarrow> string \<Rightarrow> bool" where
  "has_permission u action resource =
     (let dept_permissions = dict_get permissions (department u) [];
          allowed_resources = dict_get dept_permissions action []
      in resource \<in> set allowed_resources)"

text \<open>
  The table of section 4.1 of the specification, written from the specification's rows
  (department, action, resource), for comparison with \<^const>\<open>has_permission\<close>.
\<close>

definition spec_table_4_1 :: "(Department \<times> string \<times> string) list" where
  "spec_table_4_1 =
    [(''MANAGEMENT'', ''create'', ''user''), (''MANAGEMENT'', ''create'', ''contract''),
     (''MANAGEMENT'', ''create'', ''event''),
     (''MANAGEMENT'', ''update'', ''user''), (''MANAGEMENT'', ''update'', ''contract''),
     (''MANAGEMENT'', ''update'', ''event''),
     (''MANAGEMENT'', ''delete'', ''user''),
     (''MANAGEMENT'', ''read'', ''user''), (''MANAGEMENT'', ''read'', ''client''),
     (''MANAGEMENT'', ''read'', ''contract''), (''MANAGEMENT'', ''read'', ''event''),
     (''COMMERCIAL'', ''create'', ''client''), (''COMMERCIAL'', ''create'', ''event''),
     (''COMMERCIAL'', ''update'', ''client''), (''COMMERCIAL'', ''update'', ''contract''),
     (''COMMERCIAL'', ''read'', ''client''), (''COMMERCIAL'', ''read'', ''contract''),
     (''COMMERCIAL'', ''read'', ''event''),
     (''SUPPORT'', ''update'', ''event''),
     (''SUPPORT'', ''read'', ''client''), (''SUPPORT'', ''read'', ''contract''),
     (''SUPPORT'', ''read'', ''event'')]"

section \<open>Errors and values\<close>

text \<open>The two exceptions the services raise, each with its message.\<close>

datatype error = PermissionError string | ValueError string

text \<open>Python's \<^verbatim>\<open>str\<close> of an integer, for the identifiers that messages interpolate.\<close>

definition digit_char :: "nat \<Rightarrow> char" where
  "digit_char d = char_of (48 + d)"

fun str_nat :: "nat \<Rightarrow> string" where
  "str_nat n = (if n < 10 then [digit_char n] else str_nat (n div 10) @ [digit_char (n mod 10)])"

declare str_nat.simps [simp del]

definition str_int :: "int \<Rightarrow> string" where
  "str_int i = (if i < 0 then CHR ''-'' # str_nat (nat (- i)) else str_nat (nat i))"

section \<open>Entities (app/models)\<close>

text \<open>
  Persisted rows of the three tables. A finite \<^verbatim>\<open>Decimal\<close> amount is a rational
  number, a \<^verbatim>\<open>datetime\<close> is a point on the integer time line, an \<^verbatim>\<open>Optional\<close>
  column is an option. Relationship attributes and timestamps, which no service reads,
  are left out.
\<close>

record Client =
  id_cl :: int
  full_name :: string
  email :: string
  phone :: string
  company_name :: string
  commercial_id_cl :: "int option"

record Contract =
  id_c :: int
  total_amount :: rat
  amount_due :: rat
  signed :: bool
  client_id :: int
  commercial_id :: "int option"

record Event =
  id_e :: int
  name :: string
  event_date_start :: int
  event_date_end :: int
  location :: string
  attendees :: int
  "notes" :: "string option"
  contract_id :: int
  support_contact_id :: "int option"

text \<open>
  The amounts that the two amount columns hold exactly: the columns are declared with
  \<^verbatim>\<open>max_digits=10\<close> and \<^verbatim>\<open>decimal_places=2\<close>, so these are the whole numbers of
  hundredths below \<open>10\<^sup>8\<close> in absolute value. Arithmetic on such amounts is exact in
  \<^verbatim>\<open>Decimal\<close>, and they are read back from the database as they were written; any
  other amount is rounded by the database when the row is read back.
\<close>

definition numeric_10_2 :: "rat \<Rightarrow> bool" where
  "numeric_10_2 x = (of_int \<lfloor>x * 100\<rfloor> = x * 100 \<and> \<bar>x\<bar> < 100000000)"

definition amount_paid :: "Contract \<Rightarrow> rat" where
  "amount_paid c = total_amount c - amount_due c"

definition Contract_sign_contract :: "Contract \<Rightarrow> Contract" where
  "Contract_sign_contract c = c\<lparr>signed := True\<rparr>"

definition Contract_update_payment :: "Contract \<Rightarrow> rat \<Rightarrow> Contract" where
  "Contract_update_payment c paid = c\<lparr>amount_due := max 0 (total_amount c - paid)\<rparr>"

definition assign_support :: "Event \<Rightarrow> int \<Rightarrow> Event" where
  "assign_support e support_user_id = e\<lparr>support_contact_id := Some support_user_id\<rparr>"

section \<open>The database and the repositories (app/repositories)\<close>

text \<open>The database: one list of rows for each table, in insertion order.\<close>

record db =
  users :: "User list"
  clients :: "Client list"
  contracts :: "Contract list"
  events :: "Event list"

text \<open>\<^verbatim>\<open>session.get(model, id)\<close>: the row with that primary key, if any.\<close>

definition get_by_id :: "('a \<Rightarrow> int) \<Rightarrow> 'a list \<Rightarrow> int \<Rightarrow> 'a option" where
  "get_by_id pk rows i = find (\<lambda>r. pk r = i) rows"

text \<open>
  \<^verbatim>\<open>session.add(instance); session.commit()\<close> for an instance that was loaded from
  the table: the row with the instance's primary key is replaced by the instance.
\<close>

fun persist :: "('a \<Rightarrow> int) \<Rightarrow> 'a \<Rightarrow> 'a list \<Rightarrow> 'a list" where
  "persist pk r [] = []"
| "persist pk r (x # xs) = (if pk x = pk r then r # xs else x # persist pk r xs)"

text \<open>The primary key given to a new row: one more than the largest key in use.\<close>

definition next_id :: "('a \<Rightarrow> int) \<Rightarrow> 'a list \<Rightarrow> int" where
  "next_id pk rows = fold max (map pk rows) 0 + 1"

text \<open>
  \<^verbatim>\<open>BaseRepository.update(id, **kwargs)\<close>: the keyword arguments are a list of
  attribute assignments; each is applied with \<^verbatim>\<open>setattr\<close> (a value in the list is
  never \<^verbatim>\<open>None\<close>), then the instance is committed. An unknown id gives \<^verbatim>\<open>None\<close>.
\<close>

datatype client_attr =
  A_full_name string | A_email string | A_phone string | A_company_name string
  | A_commercial_id int

fun setattr_client :: "client_attr \<Rightarrow> Client \<Rightarrow> Client" where
  "setattr_client (A_full_name v) c = c\<lparr>full_name := v\<rparr>"
| "setattr_client (A_email v) c = c\<lparr>email := v\<rparr>"
| "setattr_client (A_phone v) c = c\<lparr>phone := v\<rparr>"
| "setattr_client (A_company_name v) c = c\<lparr>company_name := v\<rparr>"
| "setattr_client (A_commercial_id v) c = c\<lparr>commercial_id_cl := Some v\<rparr>"

datatype contract_attr = A_total_amount rat | A_amount_due rat | A_signed bool

fun setattr_contract :: "contract_attr \<Rightarrow> Contract \<Rightarrow> Contract" where
  "setattr_contract (A_total_amount v) c = c\<lparr>total_amount := v\<rparr>"
| "setattr_contract (A_amount_due v) c = c\<lparr>amount_due := v\<rparr>"
| "setattr_contract (A_signed v) c = c\<lparr>signed := v\<rparr>"

datatype event_attr =
  A_name string | A_event_date_start int | A_event_date_end int | A_location string
  | A_attendees int | A_notes string

fun setattr_event :: "event_attr \<Rightarrow> Event \<Rightarrow> Event" where
  "setattr_event (A_name v) e = e\<lparr>name := v\<rparr>"
| "setattr_event (A_event_date_start v) e = e\<lparr>event_date_start := v\<rparr>"
| "setattr_event (A_event_date_end v) e = e\<lparr>event_date_end := v\<rparr>"
| "setattr_event (A_location v) e = e\<lparr>location := v\<rparr>"
| "setattr_event (A_attendees v) e = e\<lparr>attendees := v\<rparr>"
| "setattr_event (A_notes v) e = e\<lparr>notes := Some v\<rparr>"

definition ClientRepository_update ::
  "db \<Rightarrow> int \<Rightarrow> client_attr list \<Rightarrow> Client option \<times> db" where
  "ClientRepository_update s i kwargs =
     (case get_by_id id_cl (clients s) i of
        None \<Rightarrow> (None, s)
      | Some instance \<Rightarrow>
          (let instance' = fold setattr_client kwargs instance
           in (Some instance', s\<lparr>clients := persist id_cl instance' (clients s)\<rparr>)))"

definition ContractRepository_update ::
  "db \<Rightarrow> int \<Rightarrow> contract_attr list \<Rightarrow> Contract option \<times> db" where
  "ContractRepository_update s i kwargs =
     (case get_by_id id_c (contracts s) i of
        None \<Rightarrow> (None, s)
      | Some instance \<Rightarrow>
          (let instance' = fold setattr_contract kwargs instance
           in (Some instance', s\<lparr>contracts := persist id_c instance' (contracts s)\<rparr>)))"

definition EventRepository_update ::
  "db \<Rightarrow> int \<Rightarrow> event_attr list \<Rightarrow> Event option \<times> db" where
  "EventRepository_update s i kwargs =
     (case get_by_id id_e (events s) i of
        None \<Rightarrow> (None, s)
      | Some instance \<Rightarrow>
          (let instance' = fold setattr_event kwargs instance
           in (Some instance', s\<lparr>events := persist id_e instance' (events s)\<rparr>)))"

definition get_by_email :: "db \<Rightarrow> string \<Rightarrow> Client option" where
  "get_by_email s e = find (\<lambda>c. email c = e) (clients s)"

text \<open>\<^verbatim>\<open>BaseRepository.create\<close> on the contract and event tables.\<close>

definition ContractRepository_create ::
  "db \<Rightarrow> int \<Rightarrow> rat \<Rightarrow> rat \<Rightarrow> int \<Rightarrow> bool \<Rightarrow> Contract \<times> db" where
  "ContractRepository_create s client_id' total_amount' amount_due' commercial_id' signed' =
     (let instance = \<lparr>id_c = next_id id_c (contracts s), total_amount = total_amount',
            amount_due = amount_due', signed = signed', client_id = client_id',
            commercial_id = Some commercial_id'\<rparr>
      in (instance, s\<lparr>contracts := contracts s @ [instance]\<rparr>))"

definition EventRepository_create ::
  "db \<Rightarrow> string \<Rightarrow> int \<Rightarrow> int \<Rightarrow> int \<Rightarrow> string \<Rightarrow> int \<Rightarrow> string option \<Rightarrow> Event \<times> db" where
  "EventRepository_create s name' contract_id' event_date_start' event_date_end' location'
       attendees' notes' =
     (let instance = \<lparr>id_e = next_id id_e (events s), name = name',
            event_date_start = event_date_start', event_date_end = event_date_end',
            location = location', attendees = attendees', notes = notes',
            contract_id = contract_id', support_contact_id = None\<rparr>
      in (instance, s\<lparr>events := events s @ [instance]\<rparr>))"

definition ContractRepository_sign_contract :: "db \<Rightarrow> int \<Rightarrow> Contract option \<times> db" where
  "ContractRepository_sign_contract s i =
     (case get_by_id id_c (contracts s) i of
        None \<Rightarrow> (None, s)
      | Some contract \<Rightarrow>
          (let contract' = Contract_sign_contract contract
           in (Some contract', s\<lparr>contracts := persist id_c contract' (contracts s)\<rparr>)))"

definition ContractRepository_update_payment ::
  "db \<Rightarrow> int \<Rightarrow> rat \<Rightarrow> Contract option \<times> db" where
  "ContractRepository_update_payment s i paid =
     (case get_by_id id_c (contracts s) i of
        None \<Rightarrow> (None, s)
      | Some contract \<Rightarrow>
          (let contract' = Contract_update_payment contract paid
           in (Some contract', s\<lparr>contracts := persist id_c contract' (contracts s)\<rparr>)))"

definition EventRepository_assign_support_contact ::
  "db \<Rightarrow> int \<Rightarrow> int \<Rightarrow> Event option \<times> db" where
  "EventRepository_assign_support_contact s i support_id =
     (case get_by_id id_e (events s) i of
        None \<Rightarrow> (None, s)
      | Some event \<Rightarrow>
          (let event' = assign_support event support_id
           in (Some event', s\<lparr>events := persist id_e event' (events s)\<rparr>)))"

section \<open>Resolving a user from a token (app/auth)\<close>

text \<open>
  The value passed where a token is expected: a Python string, or an integer.
\<close>

datatype pyvalue = PyStr string | PyInt int

text \<open>The decoded claims of a token; only \<^verbatim>\<open>user_id\<close> is read back.\<close>

record payload =
  user_id :: "int option"

text \<open>
  \<^verbatim>\<open>decode_access_token\<close>. The JWT library with the application's secret is the
  parameter \<open>jwt\<close>, the decoder of token strings (\<open>None\<close> for an expired or invalid
  token). The library accepts a token of type string only and raises its
  \<^verbatim>\<open>DecodeError\<close>, an \<^verbatim>\<open>InvalidTokenError\<close>, for any other value; the second
  \<^verbatim>\<open>except\<close> clause turns that into \<^verbatim>\<open>None\<close>.
\<close>

definition decode_access_token :: "(string \<Rightarrow> payload option) \<Rightarrow> pyvalue \<Rightarrow> payload option" where
  "decode_access_token jwt token = (case token of PyStr t \<Rightarrow> jwt t | PyInt _ \<Rightarrow> None)"

definition AuthService_get_current_user ::
  "(string \<Rightarrow> payload option) \<Rightarrow> db \<Rightarrow> pyvalue \<Rightarrow> User option" where
  "AuthService_get_current_user jwt s token =
     (case decode_access_token jwt token of
        None \<Rightarrow> None
      | Some p \<Rightarrow>
          (case user_id p of
             None \<Rightarrow> None
           | Some uid \<Rightarrow> if uid = 0 then None else get_by_id id_u (users s) uid))"

section \<open>The services (app/services)\<close>

text \<open>
  A service call takes the database and returns its outcome with the database after
  the call: \<open>Inl\<close> the exception raised, \<open>Inr\<close> the value returned. An optional
  argument that is \<^verbatim>\<open>None\<close> is \<open>None\<close>. The telemetry call of
  \<^verbatim>\<open>sign_contract\<close> writes a log line only and is left out.
\<close>

definition kwarg :: "('v \<Rightarrow> 'a) \<Rightarrow> 'v option \<Rightarrow> 'a list" where
  "kwarg key v = (case v of None \<Rightarrow> [] | Some x \<Rightarrow> [key x])"

subsection \<open>client\_service.py\<close>

text \<open>
  The uniqueness check of \<^verbatim>\<open>update_client\<close>: a given, non-empty email that differs
  from the client's is looked up; the result is the client that already has it, if any.
\<close>

definition email_in_use :: "db \<Rightarrow> Client \<Rightarrow> string option \<Rightarrow> Client option" where
  "email_in_use s client email' =
     (case email' of
        None \<Rightarrow> None
      | Some e \<Rightarrow> if e \<noteq> [] \<and> e \<noteq> email client then get_by_email s e else None)"

definition the_default :: "'a \<Rightarrow> 'a option \<Rightarrow> 'a" where
  "the_default d v = (case v of None \<Rightarrow> d | Some x \<Rightarrow> x)"

definition ClientService_update_client ::
  "db \<Rightarrow> int \<Rightarrow> User \<Rightarrow> string option \<Rightarrow> string option \<Rightarrow> string option \<Rightarrow> string option
     \<Rightarrow> int option \<Rightarrow> (error + Client option) \<times> db" where
  "ClientService_update_client s client_id' current_user full_name' email' phone'
       company_name' commercial_id' =
     (case get_by_id id_cl (clients s) client_id' of
        None \<Rightarrow> (Inl (ValueError (''Client with ID '' @ str_int client_id' @ '' not found'')), s)
      | Some client \<Rightarrow>
          if is_commercial current_user
               \<and> commercial_id_cl client \<noteq> Some (id_u current_user)
          then (Inl (PermissionError ''You can only update your own clients''), s)
          else if \<not> is_commercial current_user \<and> \<not> is_management current_user
          then (Inl (PermissionError ''You don't have permission to update clients''), s)
          else if email_in_use s client email' \<noteq> None
          then (Inl (ValueError (''Email '' @ the_default [] email' @ '' is already in use'')), s)
          else
            (let update_data =
                   kwarg A_full_name full_name' @ kwarg A_email email' @ kwarg A_phone phone'
                   @ kwarg A_company_name company_name'
                   @ (if commercial_id' \<noteq> None \<and> is_management current_user
                      then kwarg A_commercial_id commercial_id' else []);
                 (updated_client, s') = ClientRepository_update s client_id' update_data
             in (Inr updated_client, s')))"

subsection \<open>contract\_service.py\<close>

definition ContractService_create_contract ::
  "db \<Rightarrow> int \<Rightarrow> rat \<Rightarrow> rat \<Rightarrow> int \<Rightarrow> User \<Rightarrow> (error + Contract) \<times> db" where
  "ContractService_create_contract s client_id' total_amount' amount_due' commercial_id'
       current_user =
     (if \<not> has_permission current_user ''create'' ''contract''
      then (Inl (PermissionError ''You don't have permission to create contracts''), s)
      else case get_by_id id_cl (clients s) client_id' of
        None \<Rightarrow> (Inl (ValueError (''Client with ID '' @ str_int client_id' @ '' not found'')), s)
      | Some client \<Rightarrow>
          (let (contract, s') =
                 ContractRepository_create s client_id' total_amount' amount_due'
                   commercial_id' False
           in (Inr contract, s')))"

definition ContractService_update_contract ::
  "db \<Rightarrow> int \<Rightarrow> User \<Rightarrow> rat option \<Rightarrow> rat option \<Rightarrow> bool option
     \<Rightarrow> (error + Contract option) \<times> db" where
  "ContractService_update_contract s contract_id' current_user total_amount' amount_due'
       signed' =
     (case get_by_id id_c (contracts s) contract_id' of
        None \<Rightarrow>
          (Inl (ValueError (''Contract with ID '' @ str_int contract_id' @ '' not found'')), s)
      | Some contract \<Rightarrow>
          if is_commercial current_user
               \<and> commercial_id contract \<noteq> Some (id_u current_user)
          then (Inl (PermissionError ''You can only update contracts for your clients''), s)
          else if \<not> is_commercial current_user \<and> \<not> is_management current_user
          then (Inl (PermissionError ''You don't have permission to update contracts''), s)
          else
            (let update_data =
                   kwarg A_total_amount total_amount' @ kwarg A_amount_due amount_due'
                   @ kwarg A_signed signed';
                 (updated_contract, s') =
                   ContractRepository_update s contract_id' update_data
             in (Inr updated_contract, s')))"

definition ContractService_sign_contract ::
  "db \<Rightarrow> int \<Rightarrow> User \<Rightarrow> (error + Contract option) \<times> db" where
  "ContractService_sign_contract s contract_id' current_user =
     (case get_by_id id_c (contracts s) contract_id' of
        None \<Rightarrow>
          (Inl (ValueError (''Contract with ID '' @ str_int contract_id' @ '' not found'')), s)
      | Some contract \<Rightarrow>
          if is_commercial current_user
               \<and> commercial_id contract \<noteq> Some (id_u current_user)
          then (Inl (PermissionError ''You can only sign contracts for your clients''), s)
          else if \<not> is_commercial current_user \<and> \<not> is_management current_user
          then (Inl (PermissionError ''You don't have permission to sign contracts''), s)
          else if signed contract
          then (Inl (ValueError ''Contract is already signed''), s)
          else
            (let (signed_contract, s') = ContractRepository_sign_contract s contract_id'
             in (Inr signed_contract, s')))"

definition ContractService_update_payment ::
  "db \<Rightarrow> int \<Rightarrow> rat \<Rightarrow> User \<Rightarrow> (error + Contract option) \<times> db" where
  "ContractService_update_payment s contract_id' amount_paid' current_user =
     (case get_by_id id_c (contracts s) contract_id' of
        None \<Rightarrow>
          (Inl (ValueError (''Contract with ID '' @ str_int contract_id' @ '' not found'')), s)
      | Some contract \<Rightarrow>
          if is_commercial current_user
               \<and> commercial_id contract \<noteq> Some (id_u current_user)
          then (Inl (PermissionError ''You can only update payments for your contracts''), s)
          else if \<not> is_commercial current_user \<and> \<not> is_management current_user
          then (Inl (PermissionError ''You don't have permission to update payments''), s)
          else
            (let (c, s') = ContractRepository_update_payment s contract_id' amount_paid'
             in (Inr c, s')))"

subsection \<open>event\_service.py\<close>

definition EventService_create_event ::
  "db \<Rightarrow> string \<Rightarrow> int \<Rightarrow> int \<Rightarrow> int \<Rightarrow> string \<Rightarrow> int \<Rightarrow> string option \<Rightarrow> User
     \<Rightarrow> (error + Event) \<times> db" where
  "EventService_create_event s name' contract_id' event_date_start' event_date_end'
       location' attendees' notes' current_user =
     (if \<not> has_permission current_user ''create'' ''event''
      then (Inl (PermissionError ''You don't have permission to create events''), s)
      else case get_by_id id_c (contracts s) contract_id' of
        None \<Rightarrow>
          (Inl (ValueError (''Contract with ID '' @ str_int contract_id' @ '' not found'')), s)
      | Some contract \<Rightarrow>
          if \<not> signed contract
          then (Inl (ValueError ''Cannot create event for unsigned contract''), s)
          else if is_commercial current_user
                    \<and> commercial_id contract \<noteq> Some (id_u current_user)
          then (Inl (PermissionError ''You can only create events for your contracts''), s)
          else
            (let (event, s') =
                   EventRepository_create s name' contract_id' event_date_start'
                     event_date_end' location' attendees' notes'
             in (Inr event, s')))"

definition EventService_update_event ::
  "db \<Rightarrow> int \<Rightarrow> User \<Rightarrow> string option \<Rightarrow> int option \<Rightarrow> int option \<Rightarrow> string option
     \<Rightarrow> int option \<Rightarrow> string option \<Rightarrow> (error + Event option) \<times> db" where
  "EventService_update_event s event_id current_user name' event_date_start'
       event_date_end' location' attendees' notes' =
     (case get_by_id id_e (events s) event_id of
        None \<Rightarrow> (Inl (ValueError (''Event with ID '' @ str_int event_id @ '' not found'')), s)
      | Some event \<Rightarrow>
          if is_support current_user
               \<and> support_contact_id event \<noteq> Some (id_u current_user)
          then (Inl (PermissionError ''You can only update events assigned to you''), s)
          else if \<not> is_support current_user \<and> \<not> is_management current_user
          then (Inl (PermissionError ''You don't have permission to update events''), s)
          else
            (let update_data =
                   kwarg A_name name' @ kwarg A_event_date_start event_date_start'
                   @ kwarg A_event_date_end event_date_end' @ kwarg A_location location'
                   @ kwarg A_attendees attendees' @ kwarg A_notes notes';
                 (updated_event, s') = EventRepository_update s event_id update_data
             in (Inr updated_event, s')))"

text \<open>
  \<^verbatim>\<open>assign_support_contact\<close> passes the integer \<^verbatim>\<open>support_contact_id\<close> to
  \<^verbatim>\<open>AuthService.get_current_user\<close>, whose parameter is a token.
\<close>

definition EventService_assign_support_contact ::
  "(string \<Rightarrow> payload option) \<Rightarrow> db \<Rightarrow> int \<Rightarrow> int \<Rightarrow> User \<Rightarrow> (error + Event option) \<times> db" where
  "EventService_assign_support_contact jwt s event_id support_contact_id' current_user =
     (if \<not> is_management current_user
      then (Inl (PermissionError ''Only management can assign support contacts''), s)
      else case AuthService_get_current_user jwt s (PyInt support_contact_id') of
        None \<Rightarrow> (Inl (ValueError ''Invalid support contact ID''), s)
      | Some support_user \<Rightarrow>
          if \<not> is_support support_user
          then (Inl (ValueError ''Invalid support contact ID''), s)
          else case get_by_id id_e (events s) event_id of
            None \<Rightarrow>
              (Inl (ValueError (''Event with ID '' @ str_int event_id @ '' not found'')), s)
          | Some event \<Rightarrow>
              (let (e, s') = EventRepository_assign_support_contact s event_id
                               support_contact_id'
               in (Inr e, s')))"

section \<open>Sequences of contract operations\<close>

text \<open>
  The four operations of the public surface that write contracts, as calls with their
  arguments, and the database after a sequence of such calls. A call that raises
  leaves the database as it was.
\<close>

datatype contract_op =
  CreateContract int rat rat int User
  | UpdateContract int User "rat option" "rat option" "bool option"
  | SignContract int User
  | RecordPayment int rat User

fun apply_op :: "contract_op \<Rightarrow> db \<Rightarrow> db" where
  "apply_op (CreateContract cl t d com u) s = snd (ContractService_create_contract s cl t d com u)"
| "apply_op (UpdateContract i u t d sg) s = snd (ContractService_update_contract s i u t d sg)"
| "apply_op (SignContract i u) s = snd (ContractService_sign_contract s i u)"
| "apply_op (RecordPayment i a u) s = snd (ContractService_update_payment s i a u)"

definition run_ops :: "contract_op list \<Rightarrow> db \<Rightarrow> db" where
  "run_ops ops s = fold apply_op ops s"

text \<open>Whether the contract with a given id exists and is signed.\<close>

definition is_signed :: "db \<Rightarrow> int \<Rightarrow> bool" where
  "is_signed s i = (case get_by_id id_c (contracts s) i of None \<Rightarrow> False | Some c \<Rightarrow> signed c)"

text \<open>The calls of \<^verbatim>\<open>update_contract\<close> that pass \<^verbatim>\<open>signed=False\<close>.\<close>

fun passes_signed_False :: "contract_op \<Rightarrow> bool" where
  "passes_signed_False (UpdateContract i u t d (Some False)) = True"
| "passes_signed_False _ = False"

section \<open>Example data\<close>

definition ex_manager :: User where
  "ex_manager = \<lparr>id_u = 1, email_u = ''manager@epicevents.com'', department = MANAGEMENT,
     is_active = True\<rparr>"

definition ex_commercial :: User where
  "ex_commercial = \<lparr>id_u = 2, email_u = ''commercial@epicevents.com'',
     department = COMMERCIAL, is_active = True\<rparr>"

definition ex_support :: User where
  "ex_support = \<lparr>id_u = 3, email_u = ''support@epicevents.com'', department = SUPPORT,
     is_active = True\<rparr>"

definition ex_client :: Client where
  "ex_client = \<lparr>id_cl = 1, full_name = ''John Doe'', email = ''john.doe@example.com'',
     phone = ''+33 6 12 34 56 78'', company_name = ''Doe Enterprises'',
     commercial_id_cl = Some 2\<rparr>"

definition ex_unsigned :: Contract where
  "ex_unsigned = \<lparr>id_c = 1, total_amount = 10000, amount_due = 5000, signed = False,
     client_id = 1, commercial_id = Some 2\<rparr>"

definition ex_signed :: Contract where
  "ex_signed = \<lparr>id_c = 2, total_amount = 50000, amount_due = 50000, signed = True,
     client_id = 1, commercial_id = Some 2\<rparr>"

definition ex_event :: Event where
  "ex_event = \<lparr>id_e = 1, name = ''Product Launch'', event_date_start = 100,
     event_date_end = 200, location = ''Paris'', attendees = 100, notes = None,
     contract_id = 2, support_contact_id = Some 3\<rparr>"


definition ex_db :: db where
  "ex_db = \<lparr>users = [ex_manager, ex_commercial, ex_support], clients = [ex_client],
     contracts = [ex_unsigned, ex_signed], events = [ex_event]\<rparr>"


section \<open>Theorems\<close>

lemma dict_get_Nil: "dict_get [] k dflt = dflt"
  by (simp add: dict_get_def)

lemma dict_get_Cons:
  "dict_get ((k', v) # d) k dflt = (if k = k' then v else dict_get d k dflt)"
  by (simp add: dict_get_def)

text \<open>
  C1. For every department, action and resource, \<^const>\<open>has_permission\<close> answers true
  exactly on the triples of the table of section 4.1: that settles the 48 cases of the
  three departments, four actions and four resources, and every other department,
  action or resource is denied, since the table has no row for it.
\<close>

theorem has_permission_matches_table:
  "has_permission u a r \<longleftrightarrow> (department u, a, r) \<in> set spec_table_4_1"
  unfolding has_permission_def permissions_def spec_table_4_1_def Let_def
    MANAGEMENT_def COMMERCIAL_def SUPPORT_def
  by (cases "department u = ''MANAGEMENT''"; cases "department u = ''COMMERCIAL''";
      cases "department u = ''SUPPORT''"; cases "a = ''create''"; cases "a = ''update''";
      cases "a = ''delete''"; cases "a = ''read''";
      simp add: dict_get_Cons dict_get_Nil; blast?)

subsection \<open>Tables\<close>

lemma get_by_id_Some_pk: "get_by_id pk rows i = Some r \<Longrightarrow> pk r = i"
  by (auto simp: get_by_id_def find_Some_iff)

lemma get_by_id_persist:
  "get_by_id pk (persist pk r rows) i =
     (if i = pk r \<and> get_by_id pk rows i \<noteq> None then Some r else get_by_id pk rows i)"
  by (induction rows) (auto simp: get_by_id_def)

lemma get_by_id_append:
  "get_by_id pk (rows @ [r]) i =
     (case get_by_id pk rows i of Some x \<Rightarrow> Some x | None \<Rightarrow> if pk r = i then Some r else None)"
  by (induction rows) (auto simp: get_by_id_def)

subsection \<open>Departments and the example data\<close>

lemma departments_distinct:
  "MANAGEMENT \<noteq> COMMERCIAL" "MANAGEMENT \<noteq> SUPPORT" "COMMERCIAL \<noteq> SUPPORT"
  by (simp_all add: MANAGEMENT_def COMMERCIAL_def SUPPORT_def)

lemma management_not_others:
  "is_management u \<Longrightarrow> \<not> is_commercial u" "is_management u \<Longrightarrow> \<not> is_support u"
  "is_commercial u \<Longrightarrow> \<not> is_support u"
  using departments_distinct by (auto simp: is_management_def is_commercial_def is_support_def)

lemma ex_users [simp]:
  "is_management ex_manager" "is_commercial ex_commercial" "is_support ex_support"
  "id_u ex_manager = 1" "id_u ex_commercial = 2" "id_u ex_support = 3"
  by (simp_all add: is_management_def is_commercial_def is_support_def
      ex_manager_def ex_commercial_def ex_support_def)

lemma ex_db_contracts:
  "get_by_id id_c (contracts ex_db) 1 = Some ex_unsigned"
  "get_by_id id_c (contracts ex_db) 2 = Some ex_signed"
  by (simp_all add: get_by_id_def ex_db_def ex_unsigned_def ex_signed_def)

subsection \<open>Payments\<close>

text \<open>
  \<^verbatim>\<open>update_payment\<close> is the inverse of the \<^verbatim>\<open>amount_paid\<close> property: after it, the
  amount paid is the argument, for an argument between zero and the total.
\<close>

lemma update_payment_sets_amount_paid:
  "0 \<le> paid \<Longrightarrow> paid \<le> total_amount c \<Longrightarrow> amount_paid (Contract_update_payment c paid) = paid"
  by (simp add: amount_paid_def Contract_update_payment_def)

text \<open>An amount of 150.25 is held exactly by the column, half a hundredth is not.\<close>

lemma numeric_10_2_examples: "numeric_10_2 150.25" "\<not> numeric_10_2 (1 / 200)"
  by (simp add: numeric_10_2_def, code_simp)

text \<open>
  C2, as amended. For every existing contract and every amount paid,
  \<^verbatim>\<open>update_payment\<close> called by MANAGEMENT or by the COMMERCIAL of the contract does not
  fail and sets \<open>amount_due\<close> to \<open>max 0 (total_amount - amount_paid)\<close>, the argument being
  the amount paid in total: the balance is computed from \<open>total_amount\<close>, not from the
  current \<open>amount_due\<close>. It is never negative, and the contract is returned and stored
  so. This is for an amount paid and a resulting balance that the amount column holds
  exactly (at most two decimal places, below \<open>10\<^sup>8\<close>); what the database makes of any
  other amount is not stated.
\<close>

theorem update_payment_from_total:
  assumes "get_by_id id_c (contracts s) cid = Some c"
    and "is_management u \<or> (is_commercial u \<and> commercial_id c = Some (id_u u))"
    and "numeric_10_2 paid"
    and "numeric_10_2 (max 0 (total_amount c - paid))"
  shows "\<exists>c' s'. ContractService_update_payment s cid paid u = (Inr (Some c'), s')
           \<and> c' = c\<lparr>amount_due := max 0 (total_amount c - paid)\<rparr>
           \<and> 0 \<le> amount_due c'
           \<and> get_by_id id_c (contracts s') cid = Some c'"
proof -
  have pk: "id_c c = cid" using assms(1) by (rule get_by_id_Some_pk)
  from assms(2) have auth:
    "\<not> (is_commercial u \<and> commercial_id c \<noteq> Some (id_u u))"
    "\<not> (\<not> is_commercial u \<and> \<not> is_management u)"
    using management_not_others(1) by auto
  show ?thesis
    using assms(1) auth pk
    by (simp add: ContractService_update_payment_def ContractRepository_update_payment_def
        Contract_update_payment_def Let_def get_by_id_persist)
qed

text \<open>
  The instance of the specification: total 10000, due 5000, payment 20000 gives a
  balance of 0.
\<close>

theorem update_payment_from_total_witness:
  "\<exists>c' s'. ContractService_update_payment ex_db 1 20000 ex_commercial = (Inr (Some c'), s')
      \<and> c' = ex_unsigned\<lparr>amount_due := max 0 (total_amount ex_unsigned - 20000)\<rparr>
      \<and> amount_due c' = 0
      \<and> get_by_id id_c (contracts s') 1 = Some c'"
proof -
  have a: "is_management ex_commercial
      \<or> (is_commercial ex_commercial \<and> commercial_id ex_unsigned = Some (id_u ex_commercial))"
    by (simp add: ex_unsigned_def)
  have n: "numeric_10_2 20000" "numeric_10_2 (max 0 (total_amount ex_unsigned - 20000))"
    by (simp_all add: numeric_10_2_def ex_unsigned_def)
  show ?thesis
    using update_payment_from_total [OF ex_db_contracts(1) a n]
    by (auto simp: ex_unsigned_def)
qed

text \<open>
  The claim as stated, \<open>max 0 (amount_due - amount)\<close>, fails: on the contract with
  total 10000 and 5000 due, a payment of 1000 leaves 9000 due, not 4000.
\<close>

theorem update_payment_counterexample:
  "amount_due ex_unsigned = 5000 \<and>
   fst (ContractService_update_payment ex_db 1 1000 ex_manager) =
     Inr (Some (ex_unsigned\<lparr>amount_due := 9000\<rparr>)) \<and>
   (9000 :: rat) \<noteq> max 0 (amount_due ex_unsigned - 1000)"
  using management_not_others(1) [of ex_manager]
  by (simp add: ContractService_update_payment_def ContractRepository_update_payment_def
      Contract_update_payment_def Let_def ex_db_contracts) (simp add: ex_unsigned_def)

subsection \<open>Creating an event on an unsigned contract\<close>

lemma may_create_event:
  "has_permission u ''create'' ''event'' \<longleftrightarrow> department u = MANAGEMENT \<or> department u = COMMERCIAL"
  unfolding has_permission_def permissions_def Let_def MANAGEMENT_def COMMERCIAL_def SUPPORT_def
  by (simp add: dict_get_Cons dict_get_Nil)

text \<open>
  C3, as amended. On an existing contract that is not signed, \<^verbatim>\<open>create_event\<close> creates
  no event (the database is unchanged) and fails: with the domain-rule failure
  ``Cannot create event for unsigned contract'' for every caller that passes the coarse
  permission check, that is every MANAGEMENT and every COMMERCIAL caller, whether or not
  the COMMERCIAL is the contract's own (the signed check comes before the ownership
  check); and with the permission failure of the coarse check, which comes first, for
  every other caller.
\<close>

theorem create_event_unsigned_contract:
  assumes "get_by_id id_c (contracts s) cid = Some c" and "\<not> signed c"
  shows "EventService_create_event s nm cid ds de loc att nts u =
     (if department u = MANAGEMENT \<or> department u = COMMERCIAL
      then Inl (ValueError ''Cannot create event for unsigned contract'')
      else Inl (PermissionError ''You don't have permission to create events''), s)"
  using assms by (simp add: EventService_create_event_def may_create_event)

text \<open>A COMMERCIAL that does not own the unsigned contract gets the domain-rule failure.\<close>

theorem create_event_unsigned_contract_witness:
  "EventService_create_event ex_db ''Gala'' 1 10 50 ''Lyon'' 50 None (ex_commercial\<lparr>id_u := 9\<rparr>)
     = (Inl (ValueError ''Cannot create event for unsigned contract''), ex_db)"
  using create_event_unsigned_contract [of ex_db 1 ex_unsigned "''Gala''" 10 50 "''Lyon''" 50 None
      "ex_commercial\<lparr>id_u := 9\<rparr>"]
  by (simp add: ex_db_contracts) (simp add: ex_unsigned_def ex_commercial_def)

text \<open>
  The claim as stated, for every caller of any department, fails for a SUPPORT caller:
  the failure is the permission one.
\<close>

theorem create_event_unsigned_contract_counterexample:
  "get_by_id id_c (contracts ex_db) 1 = Some ex_unsigned \<and> \<not> signed ex_unsigned \<and>
   fst (EventService_create_event ex_db ''Gala'' 1 10 50 ''Lyon'' 50 None ex_support)
     = Inl (PermissionError ''You don't have permission to create events'') \<and>
   fst (EventService_create_event ex_db ''Gala'' 1 10 50 ''Lyon'' 50 None ex_support)
     \<noteq> Inl (ValueError ''Cannot create event for unsigned contract'')"
  by (simp add: ex_db_contracts EventService_create_event_def may_create_event)
     (simp add: ex_unsigned_def ex_support_def MANAGEMENT_def COMMERCIAL_def SUPPORT_def)

subsection \<open>Signing a contract\<close>

text \<open>
  C4. For every existing contract that is not signed, \<^verbatim>\<open>sign_contract\<close> called by an
  authorized identity (MANAGEMENT, or the COMMERCIAL of the contract) returns the
  contract signed and stores it so; a second \<^verbatim>\<open>sign_contract\<close> on the same contract,
  by any authorized identity, then fails with ``Contract is already signed'' and leaves
  the database as it is.
\<close>

theorem sign_contract_not_idempotent:
  assumes "get_by_id id_c (contracts s) cid = Some c" and "\<not> signed c"
    and "is_management u \<or> (is_commercial u \<and> commercial_id c = Some (id_u u))"
    and "is_management u2 \<or> (is_commercial u2 \<and> commercial_id c = Some (id_u u2))"
  shows "\<exists>s'. ContractService_sign_contract s cid u = (Inr (Some (c\<lparr>signed := True\<rparr>)), s')
           \<and> get_by_id id_c (contracts s') cid = Some (c\<lparr>signed := True\<rparr>)
           \<and> ContractService_sign_contract s' cid u2
               = (Inl (ValueError ''Contract is already signed''), s')"
proof -
  have pk: "id_c c = cid" using assms(1) by (rule get_by_id_Some_pk)
  have auth: "\<not> (is_commercial u \<and> commercial_id c \<noteq> Some (id_u u))"
    "\<not> (\<not> is_commercial u \<and> \<not> is_management u)"
    using assms(3) management_not_others(1) by auto
  have auth2: "\<not> (is_commercial u2 \<and> commercial_id c \<noteq> Some (id_u u2))"
    "\<not> (\<not> is_commercial u2 \<and> \<not> is_management u2)"
    using assms(4) management_not_others(1) by auto
  define s' where "s' = s\<lparr>contracts := persist id_c (c\<lparr>signed := True\<rparr>) (contracts s)\<rparr>"
  have first: "ContractService_sign_contract s cid u = (Inr (Some (c\<lparr>signed := True\<rparr>)), s')"
    using assms(1,2) auth
    by (simp add: ContractService_sign_contract_def ContractRepository_sign_contract_def
        Contract_sign_contract_def Let_def s'_def)
  have stored: "get_by_id id_c (contracts s') cid = Some (c\<lparr>signed := True\<rparr>)"
    using assms(1) pk by (simp add: s'_def get_by_id_persist)
  have second: "ContractService_sign_contract s' cid u2
      = (Inl (ValueError ''Contract is already signed''), s')"
    using stored auth2 by (simp add: ContractService_sign_contract_def)
  from first stored second show ?thesis by blast
qed

theorem sign_contract_not_idempotent_witness:
  "\<exists>s'. ContractService_sign_contract ex_db 1 ex_commercial
            = (Inr (Some (ex_unsigned\<lparr>signed := True\<rparr>)), s')
         \<and> get_by_id id_c (contracts s') 1 = Some (ex_unsigned\<lparr>signed := True\<rparr>)
         \<and> ContractService_sign_contract s' 1 ex_manager
             = (Inl (ValueError ''Contract is already signed''), s')"
  using sign_contract_not_idempotent [of ex_db 1 ex_unsigned ex_commercial ex_manager]
  by (simp add: ex_db_contracts) (simp add: ex_unsigned_def)

subsection \<open>The signed flag along sequences of operations\<close>

lemma id_c_fold_setattr: "id_c (fold setattr_contract kw c) = id_c c"
proof (induction kw arbitrary: c)
  case Nil then show ?case by simp
next
  case (Cons a kw) then show ?case by (cases a) simp_all
qed

lemma signed_update_data:
  assumes "sg \<noteq> Some False" and "signed c"
  shows "signed (fold setattr_contract
           (kwarg A_total_amount t @ kwarg A_amount_due d @ kwarg A_signed sg) c)"
  using assms by (cases t; cases d; cases sg) (simp_all add: kwarg_def)

lemma is_signed_persist:
  assumes "is_signed s i" and "get_by_id id_c (contracts s) j = Some c0"
    and "id_c c' = j" and "signed c0 \<Longrightarrow> signed c'"
  shows "is_signed (s\<lparr>contracts := persist id_c c' (contracts s)\<rparr>) i"
  using assms by (auto simp: is_signed_def get_by_id_persist split: option.splits)

lemma create_contract_keeps_signed:
  assumes "is_signed s i"
  shows "is_signed (snd (ContractService_create_contract s cl t d com u)) i"
  using assms
  by (auto simp: ContractService_create_contract_def ContractRepository_create_def Let_def
      is_signed_def get_by_id_append split: option.splits)

lemma update_contract_keeps_signed:
  assumes "is_signed s i" and "sg \<noteq> Some False"
  shows "is_signed (snd (ContractService_update_contract s j u t d sg)) i"
proof (cases "get_by_id id_c (contracts s) j")
  case None
  then show ?thesis using assms(1) by (simp add: ContractService_update_contract_def)
next
  case (Some c0)
  define c' where "c' = fold setattr_contract
      (kwarg A_total_amount t @ kwarg A_amount_due d @ kwarg A_signed sg) c0"
  have pk: "id_c c' = j"
    using get_by_id_Some_pk [OF Some] by (simp only: c'_def id_c_fold_setattr)
  have sgn: "signed c0 \<Longrightarrow> signed c'"
    unfolding c'_def by (rule signed_update_data [OF assms(2)])
  have "snd (ContractService_update_contract s j u t d sg) = s
      \<or> snd (ContractService_update_contract s j u t d sg)
          = s\<lparr>contracts := persist id_c c' (contracts s)\<rparr>"
    using Some
    by (simp add: ContractService_update_contract_def ContractRepository_update_def Let_def
        c'_def)
  then show ?thesis
    using is_signed_persist [OF assms(1) Some pk sgn] assms(1) by auto
qed

lemma sign_contract_keeps_signed:
  assumes "is_signed s i"
  shows "is_signed (snd (ContractService_sign_contract s j u)) i"
proof (cases "get_by_id id_c (contracts s) j")
  case None
  then show ?thesis using assms by (simp add: ContractService_sign_contract_def)
next
  case (Some c0)
  have pk: "id_c c0 = j" using Some by (rule get_by_id_Some_pk)
  show ?thesis
    using Some assms pk
    by (auto simp: ContractService_sign_contract_def ContractRepository_sign_contract_def
        Contract_sign_contract_def Let_def intro!: is_signed_persist)
qed

lemma update_payment_keeps_signed:
  assumes "is_signed s i"
  shows "is_signed (snd (ContractService_update_payment s j a u)) i"
proof (cases "get_by_id id_c (contracts s) j")
  case None
  then show ?thesis using assms by (simp add: ContractService_update_payment_def)
next
  case (Some c0)
  have pk: "id_c c0 = j" using Some by (rule get_by_id_Some_pk)
  show ?thesis
    using Some assms pk
    by (auto simp: ContractService_update_payment_def ContractRepository_update_payment_def
        Contract_update_payment_def Let_def intro!: is_signed_persist)
qed

lemma apply_op_keeps_signed:
  assumes "is_signed s i" and "\<not> passes_signed_False op"
  shows "is_signed (apply_op op s) i"
proof (cases op)
  case (CreateContract cl t d com u)
  then show ?thesis using assms(1) by (simp add: create_contract_keeps_signed)
next
  case (UpdateContract j u t d sg)
  with assms(2) have "sg \<noteq> Some False" by auto
  then show ?thesis using UpdateContract assms(1) by (simp add: update_contract_keeps_signed)
next
  case (SignContract j u)
  then show ?thesis using assms(1) by (simp add: sign_contract_keeps_signed)
next
  case (RecordPayment j a u)
  then show ?thesis using assms(1) by (simp add: update_payment_keeps_signed)
qed

text \<open>
  C5, as amended. Along every sequence of \<^verbatim>\<open>create_contract\<close>, \<^verbatim>\<open>update_contract\<close>,
  \<^verbatim>\<open>sign_contract\<close> and \<^verbatim>\<open>update_payment\<close> calls, by any callers and with any
  arguments, in which no \<^verbatim>\<open>update_contract\<close> call passes \<^verbatim>\<open>signed=False\<close>, a contract
  that is signed stays signed.
\<close>

theorem signed_kept_without_signed_False:
  assumes "is_signed s i" and "\<forall>op \<in> set ops. \<not> passes_signed_False op"
  shows "is_signed (run_ops ops s) i"
  using assms unfolding run_ops_def
proof (induction ops arbitrary: s)
  case Nil
  then show ?case by simp
next
  case (Cons op ops)
  from Cons.prems have "is_signed (apply_op op s) i"
    by (simp add: apply_op_keeps_signed)
  with Cons show ?case by simp
qed

theorem signed_kept_without_signed_False_witness:
  "is_signed ex_db 2
   \<and> is_signed (run_ops [SignContract 1 ex_commercial, RecordPayment 2 20000 ex_commercial,
          UpdateContract 2 ex_manager (Some 60000) None (Some True),
          UpdateContract 2 ex_commercial None (Some 100) None,
          CreateContract 1 500 500 2 ex_manager, SignContract 2 ex_manager] ex_db) 2"
proof -
  have a: "is_signed ex_db 2"
    by (simp add: is_signed_def ex_db_contracts) (simp add: ex_signed_def)
  have b: "\<forall>op \<in> set [SignContract 1 ex_commercial, RecordPayment 2 20000 ex_commercial,
          UpdateContract 2 ex_manager (Some 60000) None (Some True),
          UpdateContract 2 ex_commercial None (Some 100) None,
          CreateContract 1 500 500 2 ex_manager, SignContract 2 ex_manager].
        \<not> passes_signed_False op"
    by simp
  from a b signed_kept_without_signed_False [OF a b] show ?thesis by blast
qed

text \<open>
  The claim as stated fails: \<^verbatim>\<open>update_contract\<close> takes a \<^verbatim>\<open>signed\<close> argument and
  stores it, so MANAGEMENT passing \<^verbatim>\<open>signed=False\<close> turns a signed contract back into
  an unsigned one.
\<close>

theorem signed_reversed_counterexample:
  "is_signed ex_db 2 \<and>
   \<not> is_signed (run_ops [UpdateContract 2 ex_manager None None (Some False)] ex_db) 2"
  using management_not_others(1) [of ex_manager]
  by (simp add: run_ops_def is_signed_def ContractService_update_contract_def
      ContractRepository_update_def Let_def kwarg_def ex_db_contracts get_by_id_persist)
     (simp add: ex_signed_def)

subsection \<open>Updating a client\<close>

lemma id_cl_fold_setattr: "id_cl (fold setattr_client kw c) = id_cl c"
proof (induction kw arbitrary: c)
  case Nil then show ?case by simp
next
  case (Cons a kw) then show ?case by (cases a) simp_all
qed

lemma id_e_fold_setattr: "id_e (fold setattr_event kw e) = id_e e"
proof (induction kw arbitrary: e)
  case Nil then show ?case by simp
next
  case (Cons a kw) then show ?case by (cases a) simp_all
qed


lemma ex_db_clients: "get_by_id id_cl (clients ex_db) 1 = Some ex_client"
  by (simp add: get_by_id_def ex_db_def ex_client_def)

lemma ex_db_events: "get_by_id id_e (events ex_db) 1 = Some ex_event"
  by (simp add: get_by_id_def ex_db_def ex_event_def)

lemma update_client_denied:
  assumes "get_by_id id_cl (clients s) cid = Some cl"
    and "is_commercial u" and "commercial_id_cl cl \<noteq> Some (id_u u)"
  shows "ClientService_update_client s cid u fn em ph co com
           = (Inl (PermissionError ''You can only update your own clients''), s)"
  using assms by (simp add: ClientService_update_client_def)

lemma update_client_allowed:
  assumes "get_by_id id_cl (clients s) cid = Some cl"
    and "(is_commercial u \<and> commercial_id_cl cl = Some (id_u u)) \<or> is_management u"
  shows "ClientService_update_client s cid u fn em ph co com =
     (if email_in_use s cl em \<noteq> None
      then (Inl (ValueError (''Email '' @ the_default [] em @ '' is already in use'')), s)
      else (let cl' = fold setattr_client
                  (kwarg A_full_name fn @ kwarg A_email em @ kwarg A_phone ph
                   @ kwarg A_company_name co
                   @ (if is_management u then kwarg A_commercial_id com else [])) cl
            in (Inr (Some cl'), s\<lparr>clients := persist id_cl cl' (clients s)\<rparr>)))"
proof -
  have auth: "\<not> (is_commercial u \<and> commercial_id_cl cl \<noteq> Some (id_u u))"
    "\<not> (\<not> is_commercial u \<and> \<not> is_management u)"
    using assms(2) management_not_others(1) by auto
  show ?thesis
    using assms(1) auth
    by (cases com)
      (auto simp add: ClientService_update_client_def ClientRepository_update_def Let_def
        kwarg_def simp del: fold_append)
qed

text \<open>
  C6. For an existing client, \<^verbatim>\<open>update_client\<close> by a COMMERCIAL identity whose id is not
  the client's \<open>commercial_id\<close> fails with ``You can only update your own clients'' and
  changes nothing. By the client's own COMMERCIAL, and by any MANAGEMENT identity on any
  client, it never fails with a permission error, and it returns and stores the updated
  client unless the new email is already in use.
\<close>

theorem update_client_ownership:
  assumes "get_by_id id_cl (clients s) cid = Some cl"
  shows "(is_commercial u \<and> commercial_id_cl cl \<noteq> Some (id_u u) \<longrightarrow>
            ClientService_update_client s cid u fn em ph co com
              = (Inl (PermissionError ''You can only update your own clients''), s))
       \<and> ((is_commercial u \<and> commercial_id_cl cl = Some (id_u u)) \<or> is_management u \<longrightarrow>
            (\<forall>m. fst (ClientService_update_client s cid u fn em ph co com)
                    \<noteq> Inl (PermissionError m))
            \<and> (email_in_use s cl em = None \<longrightarrow>
                 (\<exists>cl' s'. ClientService_update_client s cid u fn em ph co com
                              = (Inr (Some cl'), s')
                            \<and> get_by_id id_cl (clients s') cid = Some cl')))"
proof (intro conjI impI)
  assume "is_commercial u \<and> commercial_id_cl cl \<noteq> Some (id_u u)"
  then show "ClientService_update_client s cid u fn em ph co com
      = (Inl (PermissionError ''You can only update your own clients''), s)"
    using update_client_denied [OF assms] by blast
next
  assume a: "(is_commercial u \<and> commercial_id_cl cl = Some (id_u u)) \<or> is_management u"
  show "\<forall>m. fst (ClientService_update_client s cid u fn em ph co com)
      \<noteq> Inl (PermissionError m)"
    by (simp add: update_client_allowed [OF assms a] Let_def)
next
  assume a: "(is_commercial u \<and> commercial_id_cl cl = Some (id_u u)) \<or> is_management u"
    and e: "email_in_use s cl em = None"
  have pk: "id_cl cl = cid" using assms by (rule get_by_id_Some_pk)
  show "\<exists>cl' s'. ClientService_update_client s cid u fn em ph co com = (Inr (Some cl'), s')
      \<and> get_by_id id_cl (clients s') cid = Some cl'"
    using assms pk e
    by (simp add: update_client_allowed [OF assms a] Let_def get_by_id_persist
        id_cl_fold_setattr del: fold_append)
qed

theorem update_client_ownership_witness:
  "ClientService_update_client ex_db 1 (ex_commercial\<lparr>id_u := 9\<rparr>) (Some ''Jane'') None None None None
     = (Inl (PermissionError ''You can only update your own clients''), ex_db)
   \<and> (\<exists>cl' s'. ClientService_update_client ex_db 1 ex_commercial (Some ''Jane'') None None None None
                  = (Inr (Some cl'), s')
                \<and> get_by_id id_cl (clients s') 1 = Some cl')
   \<and> (\<exists>cl' s'. ClientService_update_client ex_db 1 ex_manager (Some ''Jane'') None None None None
                  = (Inr (Some cl'), s')
                \<and> get_by_id id_cl (clients s') 1 = Some cl')"
proof -
  have c: "is_commercial (ex_commercial\<lparr>id_u := 9\<rparr>)"
    "commercial_id_cl ex_client \<noteq> Some (id_u (ex_commercial\<lparr>id_u := 9\<rparr>))"
    "commercial_id_cl ex_client = Some (id_u ex_commercial)"
    "email_in_use ex_db ex_client None = None"
    by (simp_all add: is_commercial_def ex_commercial_def ex_client_def email_in_use_def)
  show ?thesis
    using update_client_ownership [OF ex_db_clients, of "ex_commercial\<lparr>id_u := 9\<rparr>"
        "Some ''Jane''" None None None None]
      update_client_ownership [OF ex_db_clients, of ex_commercial
        "Some ''Jane''" None None None None]
      update_client_ownership [OF ex_db_clients, of ex_manager
        "Some ''Jane''" None None None None]
      c
    by simp
qed

subsection \<open>Updating an event\<close>

lemma update_event_allowed:
  assumes "get_by_id id_e (events s) eid = Some e"
    and "(is_support u \<and> support_contact_id e = Some (id_u u)) \<or> is_management u"
  shows "EventService_update_event s eid u nm ds de loc att nts =
     (let e' = fold setattr_event
                 (kwarg A_name nm @ kwarg A_event_date_start ds @ kwarg A_event_date_end de
                  @ kwarg A_location loc @ kwarg A_attendees att @ kwarg A_notes nts) e
      in (Inr (Some e'), s\<lparr>events := persist id_e e' (events s)\<rparr>))"
proof -
  have auth: "\<not> (is_support u \<and> support_contact_id e \<noteq> Some (id_u u))"
    "\<not> (\<not> is_support u \<and> \<not> is_management u)"
    using assms(2) management_not_others(2) by auto
  show ?thesis
    using assms(1) auth
    by (auto simp add: EventService_update_event_def EventRepository_update_def Let_def
        simp del: fold_append)
qed

text \<open>
  C7. For an existing event, \<^verbatim>\<open>update_event\<close> by a SUPPORT identity whose id is not the
  event's \<open>support_contact_id\<close> fails with ``You can only update events assigned to
  you'' and changes nothing; by the assigned SUPPORT identity, and by any MANAGEMENT
  identity on any event, it returns and stores the updated event; by a COMMERCIAL
  identity it always fails with a permission error.
\<close>

theorem update_event_ownership:
  assumes "get_by_id id_e (events s) eid = Some e"
  shows "(is_support u \<and> support_contact_id e \<noteq> Some (id_u u) \<longrightarrow>
            EventService_update_event s eid u nm ds de loc att nts
              = (Inl (PermissionError ''You can only update events assigned to you''), s))
       \<and> ((is_support u \<and> support_contact_id e = Some (id_u u)) \<or> is_management u \<longrightarrow>
            (\<exists>e' s'. EventService_update_event s eid u nm ds de loc att nts
                         = (Inr (Some e'), s')
                       \<and> get_by_id id_e (events s') eid = Some e'))
       \<and> (is_commercial u \<longrightarrow>
            EventService_update_event s eid u nm ds de loc att nts
              = (Inl (PermissionError ''You don't have permission to update events''), s))"
proof (intro conjI impI)
  assume "is_support u \<and> support_contact_id e \<noteq> Some (id_u u)"
  then show "EventService_update_event s eid u nm ds de loc att nts
      = (Inl (PermissionError ''You can only update events assigned to you''), s)"
    using assms by (simp add: EventService_update_event_def)
next
  assume a: "(is_support u \<and> support_contact_id e = Some (id_u u)) \<or> is_management u"
  have pk: "id_e e = eid" using assms by (rule get_by_id_Some_pk)
  show "\<exists>e' s'. EventService_update_event s eid u nm ds de loc att nts = (Inr (Some e'), s')
      \<and> get_by_id id_e (events s') eid = Some e'"
    using assms pk
    by (simp add: update_event_allowed [OF assms a] Let_def get_by_id_persist
        id_e_fold_setattr del: fold_append)
next
  assume "is_commercial u"
  then have "\<not> is_support u" "\<not> is_management u"
    using management_not_others by auto
  then show "EventService_update_event s eid u nm ds de loc att nts
      = (Inl (PermissionError ''You don't have permission to update events''), s)"
    using assms by (simp add: EventService_update_event_def)
qed

theorem update_event_ownership_witness:
  "EventService_update_event ex_db 1 (ex_support\<lparr>id_u := 9\<rparr>) None None None None (Some 250) None
     = (Inl (PermissionError ''You can only update events assigned to you''), ex_db)
   \<and> (\<exists>e' s'. EventService_update_event ex_db 1 ex_support None None None None (Some 250) None
                 = (Inr (Some e'), s')
               \<and> get_by_id id_e (events s') 1 = Some e')
   \<and> (\<exists>e' s'. EventService_update_event ex_db 1 ex_manager None None None None (Some 250) None
                 = (Inr (Some e'), s')
               \<and> get_by_id id_e (events s') 1 = Some e')
   \<and> EventService_update_event ex_db 1 ex_commercial None None None None (Some 250) None
       = (Inl (PermissionError ''You don't have permission to update events''), ex_db)"
proof -
  have c: "is_support (ex_support\<lparr>id_u := 9\<rparr>)"
    "support_contact_id ex_event \<noteq> Some (id_u (ex_support\<lparr>id_u := 9\<rparr>))"
    "support_contact_id ex_event = Some (id_u ex_support)"
    by (simp_all add: is_support_def ex_support_def ex_event_def)
  show ?thesis
    using update_event_ownership [OF ex_db_events, of "ex_support\<lparr>id_u := 9\<rparr>"
        None None None None "Some 250" None]
      update_event_ownership [OF ex_db_events, of ex_support None None None None "Some 250" None]
      update_event_ownership [OF ex_db_events, of ex_manager None None None None "Some 250" None]
      update_event_ownership [OF ex_db_events, of ex_commercial
        None None None None "Some 250" None]
      c
    by simp
qed

subsection \<open>The owner of a client under update\<close>







subsection \<open>Assigning a support contact\<close>

lemma get_current_user_of_id: "AuthService_get_current_user jwt s (PyInt n) = None"
  by (simp add: AuthService_get_current_user_def decode_access_token_def)

lemma assign_support_contact_not_management:
  "\<not> is_management u \<Longrightarrow>
     EventService_assign_support_contact jwt s eid sid u
       = (Inl (PermissionError ''Only management can assign support contacts''), s)"
  by (simp add: EventService_assign_support_contact_def)

lemma assign_support_contact_management:
  "is_management u \<Longrightarrow>
     EventService_assign_support_contact jwt s eid sid u
       = (Inl (ValueError ''Invalid support contact ID''), s)"
  by (simp add: EventService_assign_support_contact_def get_current_user_of_id)

text \<open>
  C8. The claim asks that \<^verbatim>\<open>assign_support_contact\<close> by a MANAGEMENT caller succeed
  when the target is an existing, active SUPPORT user. The code does not: the target's
  id is handed to the token resolver, which finds no user for it, so the call of a
  MANAGEMENT caller fails with ``Invalid support contact ID'' whatever the target. Here
  the manager assigns the active SUPPORT user 3 to the existing event 1; the database
  is left as it was.
\<close>

theorem assign_support_contact_rejects_valid_target:
  "is_management ex_manager
   \<and> get_by_id id_u (users ex_db) 3 = Some ex_support
   \<and> is_support ex_support \<and> is_active ex_support
   \<and> get_by_id id_e (events ex_db) 1 = Some ex_event
   \<and> EventService_assign_support_contact jwt ex_db 1 3 ex_manager
       = (Inl (ValueError ''Invalid support contact ID''), ex_db)"
  by (simp add: EventService_assign_support_contact_def get_current_user_of_id ex_db_events)
     (simp add: get_by_id_def ex_db_def ex_manager_def ex_commercial_def ex_support_def)

subsection \<open>The dates of a created event\<close>

text \<open>
  C9, as amended. \<^verbatim>\<open>create_event\<close> does not compare the two dates. Every call either
  fails and leaves the database as it was, or appends one event that carries exactly
  the start and end dates given; and on a signed contract, for a MANAGEMENT caller or
  the contract's COMMERCIAL, it succeeds for any two dates, so the created event has
  its start before its end if and only if the dates given are so ordered.
\<close>

theorem create_event_keeps_given_dates:
  "((\<exists>err. EventService_create_event s nm cid ds de loc att nts u = (Inl err, s))
     \<or> (\<exists>e. EventService_create_event s nm cid ds de loc att nts u
               = (Inr e, s\<lparr>events := events s @ [e]\<rparr>)
            \<and> event_date_start e = ds \<and> event_date_end e = de))
   \<and> (get_by_id id_c (contracts s) cid = Some c \<and> signed c
        \<and> (is_management u \<or> (is_commercial u \<and> commercial_id c = Some (id_u u))) \<longrightarrow>
       (\<exists>e. EventService_create_event s nm cid ds de loc att nts u
               = (Inr e, s\<lparr>events := events s @ [e]\<rparr>)
            \<and> event_date_start e = ds \<and> event_date_end e = de
            \<and> (event_date_start e < event_date_end e \<longleftrightarrow> ds < de)))"
proof (intro conjI impI)
  show "(\<exists>err. EventService_create_event s nm cid ds de loc att nts u = (Inl err, s))
     \<or> (\<exists>e. EventService_create_event s nm cid ds de loc att nts u
               = (Inr e, s\<lparr>events := events s @ [e]\<rparr>)
            \<and> event_date_start e = ds \<and> event_date_end e = de)"
    by (simp add: EventService_create_event_def EventRepository_create_def Let_def
        split: option.splits)
next
  assume a: "get_by_id id_c (contracts s) cid = Some c \<and> signed c
        \<and> (is_management u \<or> (is_commercial u \<and> commercial_id c = Some (id_u u)))"
  then have p: "has_permission u ''create'' ''event''"
    by (auto simp: may_create_event is_management_def is_commercial_def)
  from a have own: "\<not> (is_commercial u \<and> commercial_id c \<noteq> Some (id_u u))"
    using management_not_others(1) by auto
  show "\<exists>e. EventService_create_event s nm cid ds de loc att nts u
               = (Inr e, s\<lparr>events := events s @ [e]\<rparr>)
            \<and> event_date_start e = ds \<and> event_date_end e = de
            \<and> (event_date_start e < event_date_end e \<longleftrightarrow> ds < de)"
    using a p own
    by (simp add: EventService_create_event_def EventRepository_create_def Let_def)
qed

theorem create_event_keeps_given_dates_witness:
  "\<exists>e. EventService_create_event ex_db ''Gala'' 2 50 10 ''Lyon'' 50 None ex_commercial
          = (Inr e, ex_db\<lparr>events := events ex_db @ [e]\<rparr>)
       \<and> event_date_start e = 50 \<and> event_date_end e = 10
       \<and> \<not> event_date_start e < event_date_end e"
proof -
  have c: "signed ex_signed" "commercial_id ex_signed = Some (id_u ex_commercial)"
    by (simp_all add: ex_signed_def ex_commercial_def)
  show ?thesis
    using create_event_keeps_given_dates [of ex_db "''Gala''" 2 50 10 "''Lyon''" 50 None
        ex_commercial ex_signed] c
    by (simp add: ex_db_contracts)
qed

text \<open>
  The claim as stated fails: a start date of 50 and an end date of 10 are accepted, and
  the event is stored with them.
\<close>

theorem create_event_dates_counterexample:
  "fst (EventService_create_event ex_db ''Gala'' 2 50 10 ''Lyon'' 50 None ex_manager)
     = Inr \<lparr>id_e = 2, name = ''Gala'', event_date_start = 50, event_date_end = 10,
            location = ''Lyon'', attendees = 50, notes = None, contract_id = 2,
            support_contact_id = None\<rparr>
   \<and> get_by_id id_e
        (events (snd (EventService_create_event ex_db ''Gala'' 2 50 10 ''Lyon'' 50 None
           ex_manager))) 2
     = Some \<lparr>id_e = 2, name = ''Gala'', event_date_start = 50, event_date_end = 10,
            location = ''Lyon'', attendees = 50, notes = None, contract_id = 2,
            support_contact_id = None\<rparr>
   \<and> \<not> (50 :: int) < 10"
proof -
  have p: "has_permission ex_manager ''create'' ''event''"
    by (simp add: may_create_event ex_manager_def)
  have n: "next_id id_e (events ex_db) = 2"
    by (simp add: next_id_def ex_db_def ex_event_def)
  have m: "\<not> is_commercial ex_manager"
    using management_not_others(1) [of ex_manager] by simp
  have f: "get_by_id id_e (events ex_db) 2 = None"
    by (simp add: get_by_id_def ex_db_def ex_event_def)
  show ?thesis
    using p n m f
    by (simp add: EventService_create_event_def EventRepository_create_def Let_def
        ex_db_contracts get_by_id_append ex_db_events)
      (simp add: ex_signed_def)
qed

end
